theory Spec2Isabelle
  imports Complex_Main "HOL-Library.Word"
begin

section \<open>JavaScript numbers\<close>

text \<open>
  The analyzer computes with JavaScript numbers. Finite numbers are modelled as reals
  (rounding of IEEE doubles is abstracted away); the three special values a division
  can produce are kept as constructors of their own, so that \<open>0 / 0\<close> is \<open>NaN\<close>
  in the model as it is in the program, and not HOL's \<open>0 / 0 = 0\<close>.
\<close>

datatype jsnum = Num real | PosInf | NegInf | NaN

definition js_div :: "real \<Rightarrow> real \<Rightarrow> jsnum" where
  \<comment> \<open>\<open>a / b\<close> on finite numbers; the divisors of the program are lengths, never \<open>-0\<close>.\<close>
  "js_div a b =
     (if b \<noteq> 0 then Num (a / b)
      else if a = 0 then NaN
      else if 0 < a then PosInf else NegInf)"

fun Math_min_1 :: "jsnum \<Rightarrow> jsnum" where
  \<comment> \<open>\<open>Math.min(1, x)\<close>\<close>
  "Math_min_1 (Num r) = Num (min 1 r)"
| "Math_min_1 PosInf = Num 1"
| "Math_min_1 NegInf = NegInf"
| "Math_min_1 NaN = NaN"

fun Math_pow :: "jsnum \<Rightarrow> real \<Rightarrow> jsnum" where
  \<comment> \<open>\<open>Math.pow(x, y)\<close> for a positive exponent \<open>y\<close> that is not an integer\<close>
  "Math_pow (Num r) y = (if r < 0 then NaN else Num (r powr y))"
| "Math_pow PosInf y = PosInf"
| "Math_pow NegInf y = PosInf"
| "Math_pow NaN y = NaN"

fun js_times :: "jsnum \<Rightarrow> real \<Rightarrow> jsnum" where
  \<comment> \<open>\<open>x * c\<close> for a positive finite constant \<open>c\<close>\<close>
  "js_times (Num r) c = Num (r * c)"
| "js_times PosInf c = PosInf"
| "js_times NegInf c = NegInf"
| "js_times NaN c = NaN"

definition clamp01 :: "real \<Rightarrow> real" where
  \<comment> \<open>\<open>Math.max(0, Math.min(1, normalized))\<close>\<close>
  "clamp01 normalized = max 0 (min 1 normalized)"


section \<open>AudioAnalyzer\<close>

text \<open>
  The analyzer object, reduced to the two fields its feature methods read: the
  activity flag and the decibel buffer. While the analyzer is active
  \<open>getFrequencyData\<close> lets the capture device overwrite the buffer and returns it;
  \<open>frequencyData\<close> stands for the buffer as returned by that poll, one finite
  decibel magnitude per bin. (A bin the device reports as \<open>-Infinity\<close> is clamped to 0
  by every feature method, as any magnitude of -100 dB or less is.)
\<close>

record AudioAnalyzer =
  isActive :: bool
  frequencyData :: "real list"

definition getFrequencyData :: "AudioAnalyzer \<Rightarrow> real list" where
  "getFrequencyData a = frequencyData a"

definition sum_loop :: "real \<Rightarrow> real \<Rightarrow> real list \<Rightarrow> nat \<Rightarrow> nat \<Rightarrow> real" where
  \<comment> \<open>\<open>let sum = 0; for (j = start; j < end; j++) sum += clamp((data[j] + off) / rng)\<close>\<close>
  "sum_loop off rng data start end =
     foldl (\<lambda>sum j. sum + clamp01 ((data ! j + off) / rng)) 0 [start..<end]"

definition getAmplitude :: "AudioAnalyzer \<Rightarrow> jsnum" where
  \<comment> \<open>the analyzer module: floor -100 dB, range 100 dB, result capped at 1\<close>
  "getAmplitude a =
     (if \<not> isActive a then Num 0
      else let data = getFrequencyData a;
               sum = sum_loop 100 100 data 0 (length data)
           in Math_min_1 (js_div sum (real (length data))))"

definition getAmplitude_main :: "AudioAnalyzer \<Rightarrow> jsnum" where
  \<comment> \<open>the copy merged into main.js: floor -90 dB, range 60 dB, power curve and boost\<close>
  "getAmplitude_main a =
     (if \<not> isActive a then Num 0
      else let data = getFrequencyData a;
               sum = sum_loop 90 60 data 0 (length data);
               avg = js_div sum (real (length data))
           in js_times (Math_pow avg (8 / 10)) (15 / 10))"

definition band_start :: "nat \<Rightarrow> nat \<Rightarrow> nat" where
  "band_start samplesPerBand i = i * samplesPerBand"

definition band_end :: "nat \<Rightarrow> nat \<Rightarrow> nat \<Rightarrow> nat" where
  "band_end len samplesPerBand i = min ((i + 1) * samplesPerBand) len"

definition band_value :: "real list \<Rightarrow> nat \<Rightarrow> nat \<Rightarrow> jsnum" where
  \<comment> \<open>one iteration of the outer loop of \<open>getFrequencyBands\<close>\<close>
  "band_value data samplesPerBand i =
     (let start = band_start samplesPerBand i;
          end = band_end (length data) samplesPerBand i;
          sum = sum_loop 100 100 data start end
      in js_div sum (real end - real start))"

definition getFrequencyBands :: "AudioAnalyzer \<Rightarrow> nat \<Rightarrow> jsnum list" where
  \<comment> \<open>identical in both copies of the class. For \<open>numBands = 0\<close> the loop does not
      run, whatever \<open>samplesPerBand\<close> is.\<close>
  "getFrequencyBands a numBands =
     (if \<not> isActive a then replicate numBands (Num (1 / 10))
      else let data = getFrequencyData a;
               samplesPerBand = length data div numBands
           in map (band_value data samplesPerBand) [0..<numBands])"

record FrequencyRanges =
  bass :: jsnum
  mid :: jsnum
  treble :: jsnum

definition normalize_arr :: "real list \<Rightarrow> jsnum" where
  \<comment> \<open>the local helper of \<open>getFrequencyRanges\<close>\<close>
  "normalize_arr arr =
     js_div (foldl (\<lambda>sum val. sum + clamp01 ((val + 100) / 100)) 0 arr) (real (length arr))"

definition js_slice :: "'a list \<Rightarrow> nat \<Rightarrow> nat \<Rightarrow> 'a list" where
  \<comment> \<open>\<open>arr.slice(from, to)\<close> for indices \<open>0 \<le> from\<close>, \<open>0 \<le> to\<close>\<close>
  "js_slice arr from to = take (to - from) (drop from arr)"

definition getFrequencyRanges :: "AudioAnalyzer \<Rightarrow> FrequencyRanges" where
  "getFrequencyRanges a =
     (if \<not> isActive a then \<lparr>bass = Num 0, mid = Num 0, treble = Num 0\<rparr>
      else let data = getFrequencyData a;
               third = length data div 3
           in \<lparr>bass = normalize_arr (js_slice data 0 third),
               mid = normalize_arr (js_slice data third (third * 2)),
               treble = normalize_arr (js_slice data (third * 2) (length data))\<rparr>)"

text \<open>
  The index window of band \<open>i\<close> over a frame of \<open>len\<close> bins split into \<open>n\<close> bands, and
  the bins visited by all \<open>n\<close> windows in loop order.
\<close>

definition band_indices :: "nat \<Rightarrow> nat \<Rightarrow> nat \<Rightarrow> nat list" where
  "band_indices len n i = [band_start (len div n) i ..< band_end len (len div n) i]"

definition covered_bins :: "nat \<Rightarrow> nat \<Rightarrow> nat list" where
  "covered_bins len n = concat (map (band_indices len n) [0..<n])"

section \<open>Render parameters and the uniform payload\<close>

text \<open>
  The \<open>params\<close> object of the visualizer. All five fields hold JavaScript numbers; the
  setters are called with the results of \<open>parseFloat\<close> and \<open>parseInt\<close>.
\<close>

record RenderParams =
  amplitude :: real
  frequency :: real
  speed :: real
  hue :: real
  mode :: real

definition initial_params :: RenderParams where
  "initial_params = \<lparr>amplitude = 1, frequency = 3, speed = 1, hue = 180, mode = 0\<rparr>"

definition setMode :: "real \<Rightarrow> RenderParams \<Rightarrow> RenderParams" where
  "setMode m p = p\<lparr>mode := m\<rparr>"

definition setAmplitude :: "real \<Rightarrow> RenderParams \<Rightarrow> RenderParams" where
  "setAmplitude val p = p\<lparr>amplitude := val\<rparr>"

definition setFrequency :: "real \<Rightarrow> RenderParams \<Rightarrow> RenderParams" where
  "setFrequency val p = p\<lparr>frequency := val\<rparr>"

definition setSpeed :: "real \<Rightarrow> RenderParams \<Rightarrow> RenderParams" where
  "setSpeed val p = p\<lparr>speed := val\<rparr>"

definition setHue :: "real \<Rightarrow> RenderParams \<Rightarrow> RenderParams" where
  "setHue val p = p\<lparr>hue := val\<rparr>"

definition effectiveAmp :: "RenderParams \<Rightarrow> real \<Rightarrow> real" where
  \<comment> \<open>\<open>this.params.amplitude * (0.5 + audioAmp * 1.5)\<close>\<close>
  "effectiveAmp p audioAmp = amplitude p * (5 / 10 + audioAmp * (15 / 10))"

text \<open>
  A scalar of the uniform buffer, tagged with the type it is stored as. Every element of
  a \<open>Float32Array\<close> is stored as a 4-byte float.
\<close>

datatype scalar = F32 real | U32 "32 word"

definition Float32Array :: "real list \<Rightarrow> scalar list" where
  "Float32Array xs = map F32 xs"

definition byteLength :: "scalar list \<Rightarrow> nat" where
  "byteLength xs = 4 * length xs"

definition uniformBuffer_size :: nat where
  "uniformBuffer_size = 32"

definition render_uniforms :: "RenderParams \<Rightarrow> real \<Rightarrow> real \<Rightarrow> real \<Rightarrow> real \<Rightarrow> scalar list" where
  \<comment> \<open>the \<open>uniforms\<close> array built by \<open>render(time)\<close> from the audio amplitude and the
      canvas size\<close>
  "render_uniforms p audioAmp time width height =
     Float32Array
       [time, effectiveAmp p audioAmp, frequency p, speed p, width, height, hue p, mode p]"

text \<open>
  The \<open>Uniforms\<close> struct as each shader declares it, with the size and alignment of the
  member types of the shading language and the offsets they give.
\<close>

datatype wgsl_type = T_f32 | T_u32 | T_vec2_f32

fun size_of :: "wgsl_type \<Rightarrow> nat" where
  "size_of T_f32 = 4"
| "size_of T_u32 = 4"
| "size_of T_vec2_f32 = 8"

fun align_of :: "wgsl_type \<Rightarrow> nat" where
  "align_of T_f32 = 4"
| "align_of T_u32 = 4"
| "align_of T_vec2_f32 = 8"

definition round_up :: "nat \<Rightarrow> nat \<Rightarrow> nat" where
  "round_up k n = ((n + k - 1) div k) * k"

fun member_offsets :: "nat \<Rightarrow> wgsl_type list \<Rightarrow> nat list" where
  "member_offsets free [] = []"
| "member_offsets free (ty # tys) =
     round_up (align_of ty) free # member_offsets (round_up (align_of ty) free + size_of ty) tys"

fun struct_end :: "nat \<Rightarrow> wgsl_type list \<Rightarrow> nat" where
  "struct_end free [] = free"
| "struct_end free (ty # tys) = struct_end (round_up (align_of ty) free + size_of ty) tys"

definition struct_size :: "wgsl_type list \<Rightarrow> nat" where
  "struct_size tys = round_up (fold max (map align_of tys) 1) (struct_end 0 tys)"

definition Uniforms_wave_wgsl :: "(string \<times> wgsl_type) list" where
  "Uniforms_wave_wgsl =
     [(''time'', T_f32), (''amplitude'', T_f32), (''frequency'', T_f32), (''speed'', T_f32),
      (''resolution'', T_vec2_f32), (''hue'', T_f32), (''mode'', T_u32)]"

definition Uniforms_inline :: "(string \<times> wgsl_type) list" where
  "Uniforms_inline =
     [(''time'', T_f32), (''amplitude'', T_f32), (''frequency'', T_f32), (''speed'', T_f32),
      (''resolution'', T_vec2_f32), (''hue'', T_f32), (''mode'', T_f32)]"


section \<open>The wave dispatch of the fragment shaders\<close>

text \<open>
  The shaders compute in 32-bit floats, modelled as reals. A \<open>vec2<f32>\<close> is a pair.
  The uniform block is a record whose \<open>mode\<close> member has the type the shader declares:
  \<open>u32\<close> in wave.wgsl, \<open>f32\<close> in the shader inlined in main.js.
\<close>

type_synonym vec2 = "real \<times> real"

record 'm Uniforms =
  u_time :: real
  u_amplitude :: real
  u_frequency :: real
  u_speed :: real
  u_resolution :: vec2
  u_hue :: real
  u_mode :: 'm

definition vlength :: "vec2 \<Rightarrow> real" where
  "vlength v = sqrt (fst v * fst v + snd v * snd v)"

definition dot :: "vec2 \<Rightarrow> vec2 \<Rightarrow> real" where
  "dot a b = fst a * fst b + snd a * snd b"

definition mix :: "real \<Rightarrow> real \<Rightarrow> real \<Rightarrow> real" where
  "mix a b w = a * (1 - w) + b * w"

definition noise :: "vec2 \<Rightarrow> real" where
  "noise p = frac (sin (dot p (129898 / 10000, 78233 / 1000)) * (437585453 / 10000))"

definition smooth_noise :: "vec2 \<Rightarrow> real" where
  "smooth_noise p =
     (let i = (of_int \<lfloor>fst p\<rfloor>, of_int \<lfloor>snd p\<rfloor>);
          f = (frac (fst p), frac (snd p));
          u = (fst f * fst f * (3 - 2 * fst f), snd f * snd f * (3 - 2 * snd f));
          a = noise i;
          b = noise (fst i + 1, snd i);
          c = noise (fst i, snd i + 1);
          d = noise (fst i + 1, snd i + 1)
      in mix (mix a b (fst u)) (mix c d (fst u)) (snd u))"

fun fbm_loop :: "nat \<Rightarrow> real \<Rightarrow> real \<Rightarrow> vec2 \<Rightarrow> real" where
  \<comment> \<open>the remaining iterations of the loop of \<open>fbm\<close>, with its three variables\<close>
  "fbm_loop 0 val amp pos = val"
| "fbm_loop (Suc k) val amp pos =
     fbm_loop k (val + amp * smooth_noise pos) (amp * (5 / 10)) (fst pos * 2, snd pos * 2)"

definition fbm :: "vec2 \<Rightarrow> real" where
  "fbm p = fbm_loop 4 0 (5 / 10) p"

definition sine_waves :: "'m Uniforms \<Rightarrow> vec2 \<Rightarrow> real \<Rightarrow> real" where
  "sine_waves u uv t =
     (let freq = u_frequency u; amp = u_amplitude u;
          wave = sin (fst uv * freq * 3 + t * 2) * (4 / 10);
          wave = wave + sin (fst uv * freq * 5 - t * (15 / 10)) * (3 / 10);
          wave = wave + sin (fst uv * freq * 7 + t * (25 / 10)) * (2 / 10);
          wave = wave + sin (fst uv * freq * 11 - t * 3) * (1 / 10);
          wave = wave + sin (snd uv * freq * 2 + t) * (15 / 100)
      in wave * amp)"

definition circular_ripples :: "'m Uniforms \<Rightarrow> vec2 \<Rightarrow> real \<Rightarrow> real" where
  "circular_ripples u uv t =
     (let freq = u_frequency u; amp = u_amplitude u;
          dist = vlength uv;
          wave = sin (dist * freq * 10 - t * 3);
          fade = exp (- dist * (5 / 10));
          dist2 = vlength (fst uv - 5 / 10, snd uv - 3 / 10);
          wave2 = sin (dist2 * freq * 8 - t * (25 / 10)) * (5 / 10);
          fade2 = exp (- dist2 * (7 / 10));
          dist3 = vlength (fst uv + 4 / 10, snd uv + (- 2 / 10));
          wave3 = sin (dist3 * freq * 9 - t * (28 / 10)) * (3 / 10);
          fade3 = exp (- dist3 * (6 / 10))
      in (wave * fade + wave2 * fade2 + wave3 * fade3) * amp)"

definition lissajous_curves :: "'m Uniforms \<Rightarrow> vec2 \<Rightarrow> real \<Rightarrow> real" where
  "lissajous_curves u uv t =
     (let freq = u_frequency u; amp = u_amplitude u;
          a = 3 * freq;
          b = 2 * freq;
          delta = t * (5 / 10);
          lx = sin (a * fst uv + t);
          ly = sin (b * snd uv + delta);
          pattern = lx * ly;
          lx2 = sin (a * (15 / 10) * fst uv - t * (12 / 10));
          ly2 = cos (b * (13 / 10) * snd uv + delta * (8 / 10))
      in (pattern + lx2 * ly2 * (5 / 10)) * amp)"

definition plasma_field :: "'m Uniforms \<Rightarrow> vec2 \<Rightarrow> real \<Rightarrow> real" where
  "plasma_field u uv t =
     (let freq = u_frequency u; amp = u_amplitude u;
          pos = (fst uv * freq, snd uv * freq);
          val = sin (fst pos + t);
          val = val + sin (snd pos + t);
          val = val + sin (fst pos + snd pos + t);
          dist = vlength pos;
          val = val + sin (dist - t * 2);
          val = val + fbm (fst pos * (5 / 10) + t * (3 / 10), snd pos * (5 / 10) + t * (3 / 10)) * 2
      in val * (2 / 10) * amp)"

definition wave_surface :: "'m Uniforms \<Rightarrow> vec2 \<Rightarrow> real \<Rightarrow> real" where
  \<comment> \<open>The vertex shader gives \<open>snd uv\<close> in \<open>[-1, 1]\<close>, where the divisor is at least 1/2.\<close>
  "wave_surface u uv t =
     (let freq = u_frequency u; amp = u_amplitude u;
          perspective = 1 / (1 + snd uv * (5 / 10));
          pos = (fst uv * perspective * freq, snd uv * freq);
          wave = sin (fst pos * 3 + t * 2) * cos (snd pos * 2 + t);
          wave = wave + sin (fst pos * 5 - snd pos * 3 + t * (15 / 10)) * (5 / 10);
          wave = wave + sin ((fst pos + snd pos) * 2 + t * (8 / 10)) * (3 / 10)
      in wave * amp * perspective)"

definition wave_switch :: "32 word Uniforms \<Rightarrow> vec2 \<Rightarrow> real \<Rightarrow> real" where
  \<comment> \<open>the \<open>switch uniforms.mode\<close> of \<open>fs_main\<close> in wave.wgsl\<close>
  "wave_switch u uv t =
     (if u_mode u = 0 then sine_waves u uv t
      else if u_mode u = 1 then circular_ripples u uv t
      else if u_mode u = 2 then lissajous_curves u uv t
      else if u_mode u = 3 then plasma_field u uv t
      else if u_mode u = 4 then wave_surface u uv t
      else sine_waves u uv t)"

definition fs_main_wave :: "32 word Uniforms \<Rightarrow> vec2 \<Rightarrow> real" where
  "fs_main_wave u uv = wave_switch u uv (u_time u * u_speed u)"

definition f32_to_u32 :: "real \<Rightarrow> 32 word" where
  \<comment> \<open>the conversion \<open>u32(e)\<close> of a float: clamped to the range of \<open>u32\<close>, then
      rounded toward zero\<close>
  "f32_to_u32 e =
     (if e \<le> 0 then 0
      else if 4294967295 \<le> e then word_of_nat 4294967295
      else word_of_nat (nat \<lfloor>e\<rfloor>))"

definition inline_wave_switch :: "real Uniforms \<Rightarrow> vec2 \<Rightarrow> real \<Rightarrow> real" where
  \<comment> \<open>the \<open>switch u32(uniforms.mode + 0.1)\<close> of \<open>fs_main\<close> in the shader inlined in
      main.js, with the \<open>wave *= uniforms.amplitude\<close> that follows it\<close>
  "inline_wave_switch u uv t =
     (let m = f32_to_u32 (u_mode u + 1 / 10);
          wave =
            (if m = 0 then
               sin (fst uv * u_frequency u * 3 + t * 2) * (4 / 10)
               + sin (fst uv * u_frequency u * 5 - t * (15 / 10)) * (3 / 10)
               + sin (fst uv * u_frequency u * 7 + t * (25 / 10)) * (2 / 10)
             else if m = 1 then
               sin (vlength uv * u_frequency u * 10 - t * 3) * exp (- vlength uv * (5 / 10))
             else if m = 2 then
               sin (fst uv * u_frequency u + t)
                 * cos (fst uv * u_frequency u * (5 / 10) - t * (15 / 10)) * (8 / 10)
               + sin (fst uv * u_frequency u * 2 + t) * (2 / 10)
             else if m = 3 then
               (sin (fst uv * u_frequency u + t)
                + sin (snd uv * u_frequency u + t)
                + sin ((fst uv + snd uv) * u_frequency u + t)
                + sin (vlength (fst uv * u_frequency u, snd uv * u_frequency u) - t * 2))
               * (25 / 100)
             else
               sin (fst uv * u_frequency u * 3 + t * 2) * cos (snd uv * u_frequency u * 2 + t))
      in wave * u_amplitude u)"

definition uniforms_of :: "'m \<Rightarrow> real \<Rightarrow> real \<Rightarrow> 'm Uniforms" where
  \<comment> \<open>a uniform block with the given mode and time, amplitude, frequency and speed 1\<close>
  "uniforms_of m t freq =
     \<lparr>u_time = t, u_amplitude = 1, u_frequency = freq, u_speed = 1,
      u_resolution = (800, 600), u_hue = 180, u_mode = m\<rparr>"


section \<open>Helper lemmas\<close>

lemma clamp01_bounds: "0 \<le> clamp01 x \<and> clamp01 x \<le> 1"
  by (simp add: clamp01_def)

lemma foldl_clamp_bounds:
  "acc \<le> foldl (\<lambda>sum j. sum + clamp01 (g j)) acc xs
   \<and> foldl (\<lambda>sum j. sum + clamp01 (g j)) acc xs \<le> acc + real (length xs)"
proof (induction xs arbitrary: acc)
  case Nil
  then show ?case by simp
next
  case (Cons x xs)
  have step: "acc \<le> acc + clamp01 (g x)" "acc + clamp01 (g x) \<le> acc + 1"
    using clamp01_bounds [of "g x"] by simp_all
  from Cons [of "acc + clamp01 (g x)"] step show ?case by simp
qed

lemma sum_loop_bounds:
  "0 \<le> sum_loop off rng data s e \<and> sum_loop off rng data s e \<le> real (e - s)"
  using foldl_clamp_bounds [of 0 "\<lambda>j. (data ! j + off) / rng" "[s..<e]"]
  by (simp add: sum_loop_def)

lemma concat_windows:
  "concat (map (\<lambda>i. [i * s ..< (i + 1) * s]) [0..<k]) = [0 ..< k * s]"
proof (induction k)
  case 0
  then show ?case by simp
next
  case (Suc k)
  have "[0 ..< k * s + s] = [0 ..< k * s] @ [k * s ..< k * s + s]"
    by (rule upt_add_eq_append) simp
  with Suc show ?case by (simp add: add.commute)
qed

lemma band_end_exact:
  assumes "n \<le> len" "i < n"
  shows "band_end len (len div n) i = (i + 1) * (len div n)"
proof -
  have "(i + 1) * (len div n) \<le> n * (len div n)"
    using assms by (intro mult_le_mono1) simp
  also have "\<dots> \<le> len" by simp
  finally show ?thesis by (simp add: band_end_def)
qed

lemma band_indices_exact:
  assumes "n \<le> len" "i < n"
  shows "band_indices len n i = [i * (len div n) ..< (i + 1) * (len div n)]"
  using band_end_exact [OF assms] by (simp add: band_indices_def band_start_def)

lemma covered_bins_exact:
  assumes "n \<le> len"
  shows "covered_bins len n = [0 ..< n * (len div n)]"
proof -
  have "map (band_indices len n) [0..<n]
        = map (\<lambda>i. [i * (len div n) ..< (i + 1) * (len div n)]) [0..<n]"
    using assms by (intro map_cong) (simp_all add: band_indices_exact)
  then show ?thesis
    unfolding covered_bins_def by (simp only: concat_windows)
qed

lemma sum_loop_cong:
  assumes "\<forall>j. s \<le> j \<and> j < e \<longrightarrow> data ! j = data' ! j"
  shows "sum_loop off rng data s e = sum_loop off rng data' s e"
  unfolding sum_loop_def
  using assms by (intro foldl_cong) simp_all

lemma band_value_cong:
  assumes "n \<le> len" "i < n" "length data = len" "length data' = len"
    and "take (n * (len div n)) data = take (n * (len div n)) data'"
  shows "band_value data (len div n) i = band_value data' (len div n) i"
proof -
  let ?w = "len div n"
  have en: "band_end len ?w i = (i + 1) * ?w" using band_end_exact [OF assms(1,2)] .
  have "(i + 1) * ?w \<le> n * ?w" using assms(2) by (intro mult_le_mono1) simp
  then have lt: "j < n * ?w" if "j < band_end len ?w i" for j using that en by simp
  have "data ! j = data' ! j" if "j < band_end len ?w i" for j
  proof -
    have "data ! j = take (n * ?w) data ! j" using lt [OF that] by simp
    also have "\<dots> = take (n * ?w) data' ! j" using assms(5) by simp
    also have "\<dots> = data' ! j" using lt [OF that] by simp
    finally show ?thesis .
  qed
  then have "sum_loop 100 100 data (band_start ?w i) (band_end len ?w i)
           = sum_loop 100 100 data' (band_start ?w i) (band_end len ?w i)"
    by (intro sum_loop_cong) simp
  then show ?thesis using assms(3,4) by (simp add: band_value_def Let_def)
qed

lemma bands_ignore_remainder:
  assumes "n \<le> len" "isActive a" "isActive b"
    "length (frequencyData a) = len" "length (frequencyData b) = len"
    "take (n * (len div n)) (frequencyData a) = take (n * (len div n)) (frequencyData b)"
  shows "getFrequencyBands a n = getFrequencyBands b n"
proof -
  have "band_value (frequencyData a) (len div n) i
        = band_value (frequencyData b) (len div n) i"
    if "i < n" for i
    using band_value_cong [OF assms(1) that assms(4,5,6)] .
  then have "map (band_value (frequencyData a) (len div n)) [0..<n]
      = map (band_value (frequencyData b) (len div n)) [0..<n]"
    by (intro map_cong) simp_all
  moreover
  have "getFrequencyBands a n = map (band_value (frequencyData a) (len div n)) [0..<n]"
    using assms(2,4) by (simp add: getFrequencyBands_def getFrequencyData_def Let_def)
  moreover
  have "getFrequencyBands b n = map (band_value (frequencyData b) (len div n)) [0..<n]"
    using assms(3,5) by (simp add: getFrequencyBands_def getFrequencyData_def Let_def)
  ultimately show ?thesis by simp
qed

lemma getAmplitude_range:
  assumes "isActive a" "frequencyData a \<noteq> []"
  shows "\<exists>r. getAmplitude a = Num r \<and> 0 \<le> r \<and> r \<le> 1"
proof -
  let ?d = "frequencyData a"
  let ?s = "sum_loop 100 100 ?d 0 (length ?d)"
  have len: "0 < real (length ?d)" using assms by simp
  have "0 \<le> ?s" using sum_loop_bounds by blast
  then have "0 \<le> ?s / real (length ?d)" using len by simp
  then have "0 \<le> min 1 (?s / real (length ?d))" by simp
  moreover have "getAmplitude a = Num (min 1 (?s / real (length ?d)))"
    using assms by (simp add: getAmplitude_def getFrequencyData_def js_div_def Let_def)
  ultimately show ?thesis by simp
qed

lemma getAmplitude_main_range:
  assumes "isActive a" "frequencyData a \<noteq> []"
  shows "\<exists>r. getAmplitude_main a = Num r \<and> 0 \<le> r \<and> r \<le> 15 / 10"
proof -
  let ?d = "frequencyData a"
  let ?s = "sum_loop 90 60 ?d 0 (length ?d)"
  let ?avg = "?s / real (length ?d)"
  have len: "0 < real (length ?d)" using assms by simp
  have s: "0 \<le> ?s" "?s \<le> real (length ?d)"
    using sum_loop_bounds [of 90 60 ?d 0 "length ?d"] by simp_all
  have avg: "0 \<le> ?avg" "?avg \<le> 1" using s len by simp_all
  have "?avg powr (8 / 10) \<le> 1 powr (8 / 10)"
    using avg by (intro powr_mono2) simp_all
  then have p: "0 \<le> ?avg powr (8 / 10)" "?avg powr (8 / 10) \<le> 1" by simp_all
  have "getAmplitude_main a = Num (?avg powr (8 / 10) * (15 / 10))"
    using assms avg by (simp add: getAmplitude_main_def getFrequencyData_def js_div_def Let_def)
  moreover have "0 \<le> ?avg powr (8 / 10) * (15 / 10)"
    "?avg powr (8 / 10) * (15 / 10) \<le> 15 / 10"
    using p by simp_all
  ultimately show ?thesis by blast
qed

lemma band_value_range:
  assumes "1 \<le> n" "n \<le> length data" "i < n"
  shows "\<exists>r. band_value data (length data div n) i = Num r \<and> 0 \<le> r \<and> r \<le> 1"
proof -
  let ?w = "length data div n"
  let ?st = "band_start ?w i"
  let ?en = "band_end (length data) ?w i"
  let ?s = "sum_loop 100 100 data ?st ?en"
  have w: "1 \<le> ?w" using assms by (simp add: div_greater_zero_iff Suc_le_eq)
  have en: "?en = ?st + ?w" using band_end_exact [OF assms(2,3)] by (simp add: band_start_def)
  then have d: "real ?en - real ?st = real ?w" by simp
  have s: "0 \<le> ?s" "?s \<le> real ?w"
    using sum_loop_bounds [of 100 100 data ?st ?en] en by simp_all
  have wpos: "0 < real ?w" using w by simp
  have "band_value data ?w i = js_div ?s (real ?en - real ?st)"
    by (simp add: band_value_def Let_def)
  also have "\<dots> = Num (?s / real ?w)"
    unfolding d using wpos by (simp add: js_div_def)
  finally have "band_value data ?w i = Num (?s / real ?w)" .
  moreover have "0 \<le> ?s / real ?w" "?s / real ?w \<le> 1" using s wpos by simp_all
  ultimately show ?thesis by blast
qed

lemma bands_nth:
  assumes "isActive a" "i < n"
  shows "getFrequencyBands a n ! i
         = band_value (frequencyData a) (length (frequencyData a) div n) i"
  using assms by (simp add: getFrequencyBands_def getFrequencyData_def Let_def)

lemma band_value_NaN: "band_value data 0 i = NaN"
  by (simp add: band_value_def band_start_def band_end_def Let_def js_div_def sum_loop_def)

lemma bands_NaN:
  assumes "isActive a" "length (frequencyData a) < n"
  shows "getFrequencyBands a n = replicate n NaN"
proof -
  have "map (band_value (frequencyData a) (length (frequencyData a) div n)) [0..<n]
        = map (\<lambda>_. NaN) [0..<n]"
    using assms(2) by (intro map_cong) (simp_all add: band_value_NaN)
  then show ?thesis using assms(1)
    by (simp add: getFrequencyBands_def getFrequencyData_def Let_def map_replicate_const)
qed

lemma sin_5_half_pi: "sin (pi * 5 / 2) = (1::real)"
proof -
  have "pi * 5 / 2 = pi / 2 + 2 * pi" by simp
  then show ?thesis by (simp only: sin_periodic sin_pi_half)
qed

lemma sin_3_half_pi: "sin (pi * 3 / 2) = (-1::real)"
  using sin_3over2_pi by (simp add: mult.commute)

lemma sin_7_half_pi: "sin (pi * 7 / 2) = (-1::real)"
proof -
  have "pi * 7 / 2 = pi * 3 / 2 + 2 * pi" by simp
  then show ?thesis by (simp only: sin_periodic sin_3_half_pi)
qed

lemma uniforms_of_mode: "(uniforms_of m t f)\<lparr>u_mode := k\<rparr> = uniforms_of k t f"
  by (simp add: uniforms_of_def)

lemma f32_to_u32_4: "f32_to_u32 (41 / 10) = 4"
  by (simp add: f32_to_u32_def)

lemma f32_to_u32_5: "f32_to_u32 (51 / 10) = 5"
  by (simp add: f32_to_u32_def)

lemma sine_waves_mode: "sine_waves (u\<lparr>u_mode := k\<rparr>) uv t = sine_waves u uv t"
  by (simp add: sine_waves_def)

lemmas bands_eval =
  getFrequencyBands_def getFrequencyData_def band_value_def band_start_def band_end_def
  sum_loop_def clamp01_def js_div_def upt_rec Let_def


section \<open>Band windows\<close>

text \<open>
  C1, as the code has it. For a frame of \<open>len\<close> bins and a band count \<open>n\<close> with
  \<open>1 \<le> n \<le> len\<close>, every window has the same width \<open>len div n\<close>, which is at least 1;
  window \<open>i\<close> is the index range from \<open>i * (len div n)\<close> up to, not including,
  \<open>(i + 1) * (len div n)\<close>; each window ends where the next one starts; and the windows
  visit exactly the bins below \<open>n * (len div n)\<close>, each once and in order. The
  \<open>len mod n\<close> bins from \<open>n * (len div n)\<close> on belong to no window: the last window
  does not absorb the remainder. Every bin is covered exactly when \<open>n\<close> divides \<open>len\<close>.
  The bands computed by \<open>getFrequencyBands\<close> depend on the covered bins only: two
  active frames of \<open>len\<close> bins that agree below \<open>n * (len div n)\<close> have the same bands.
\<close>

theorem band_windows_cover_multiple:
  assumes "1 \<le> n" and "n \<le> len"
  shows "1 \<le> len div n
       \<and> (\<forall>i<n. band_indices len n i = [i * (len div n) ..< (i + 1) * (len div n)])
       \<and> (\<forall>i. Suc i < n \<longrightarrow> band_end len (len div n) i = band_start (len div n) (Suc i))
       \<and> covered_bins len n = [0 ..< n * (len div n)]
       \<and> set (covered_bins len n) = {0..<len} - {n * (len div n) ..< len}
       \<and> len - n * (len div n) = len mod n
       \<and> (covered_bins len n = [0..<len] \<longleftrightarrow> n dvd len)
       \<and> (\<forall>a b. isActive a \<and> isActive b
              \<and> length (frequencyData a) = len \<and> length (frequencyData b) = len
              \<and> take (n * (len div n)) (frequencyData a)
                  = take (n * (len div n)) (frequencyData b)
              \<longrightarrow> getFrequencyBands a n = getFrequencyBands b n)"
proof -
  have w: "1 \<le> len div n"
    using assms by (simp add: div_greater_zero_iff Suc_le_eq)
  have ix: "\<forall>i<n. band_indices len n i = [i * (len div n) ..< (i + 1) * (len div n)]"
    using assms band_indices_exact by simp
  have adj: "\<forall>i. Suc i < n \<longrightarrow> band_end len (len div n) i = band_start (len div n) (Suc i)"
    using assms by (simp add: band_end_exact band_start_def)
  have c: "covered_bins len n = [0 ..< n * (len div n)]"
    using assms covered_bins_exact by simp
  have le: "n * (len div n) \<le> len" by simp
  have st: "set (covered_bins len n) = {0..<len} - {n * (len div n) ..< len}"
    unfolding c by (auto dest: less_le_trans [OF _ le])
  have md: "len - n * (len div n) = len mod n"
    by (simp add: minus_mult_div_eq_mod)
  have "[0 ..< n * (len div n)] = [0..<len] \<longleftrightarrow> n * (len div n) = len"
    by (metis diff_zero length_upt)
  also have "\<dots> \<longleftrightarrow> n dvd len"
    by (metis dvd_mult_div_cancel dvd_triv_left)
  finally have dv: "covered_bins len n = [0..<len] \<longleftrightarrow> n dvd len"
    unfolding c .
  have ig: "\<forall>a b. isActive a \<and> isActive b
              \<and> length (frequencyData a) = len \<and> length (frequencyData b) = len
              \<and> take (n * (len div n)) (frequencyData a)
                  = take (n * (len div n)) (frequencyData b)
              \<longrightarrow> getFrequencyBands a n = getFrequencyBands b n"
    using bands_ignore_remainder [OF assms(2)] by blast
  show ?thesis by (intro conjI w ix adj c st md dv ig)
qed

text \<open>The instance of C1 at 8 bins and 3 bands: width 2, six bins covered, two left.\<close>

theorem band_windows_cover_multiple_witness:
  "(1::nat) \<le> 3 \<and> (3::nat) \<le> 8
   \<and> band_indices 8 3 2 = [4, 5]
   \<and> band_end 8 (8 div 3) 1 = band_start (8 div 3) 2
   \<and> covered_bins 8 3 = [0, 1, 2, 3, 4, 5]
   \<and> (8::nat) - 3 * (8 div 3) = 2
   \<and> getFrequencyBands
        \<lparr>isActive = True, frequencyData = [-100, -100, -100, -100, -100, -100, 0, 0]\<rparr> 3
      = getFrequencyBands
        \<lparr>isActive = True, frequencyData = [-100, -100, -100, -100, -100, -100, -50, -20]\<rparr> 3"
proof -
  have h: "(1::nat) \<le> 3" "(3::nat) \<le> 8" by simp_all
  note t = band_windows_cover_multiple [OF h]
  have "\<forall>i<3. band_indices 8 3 i = [i * (8 div 3) ..< (i + 1) * (8 div 3)]"
    using t by (rule conjunct1 [OF conjunct2])
  then have "band_indices 8 3 2 = [2 * (8 div 3) ..< (2 + 1) * (8 div 3)]"
    by simp
  then have ix: "band_indices 8 3 2 = [4, 5]" by (simp add: upt_rec)
  have "\<forall>i. Suc i < 3 \<longrightarrow> band_end 8 (8 div 3) i = band_start (8 div 3) (Suc i)"
    using t by (rule conjunct1 [OF conjunct2 [OF conjunct2]])
  then have "Suc 1 < 3 \<longrightarrow> band_end 8 (8 div 3) 1 = band_start (8 div 3) (Suc 1)"
    by (rule spec)
  then have adj: "band_end 8 (8 div 3) 1 = band_start (8 div 3) 2"
    by (simp add: numeral_2_eq_2)
  have "covered_bins 8 3 = [0 ..< 3 * (8 div 3)]"
    using t by (rule conjunct1 [OF conjunct2 [OF conjunct2 [OF conjunct2]]])
  then have c: "covered_bins 8 3 = [0, 1, 2, 3, 4, 5]" by (simp add: upt_rec)
  let ?a = "\<lparr>isActive = True, frequencyData = [-100, -100, -100, -100, -100, -100, 0, 0]\<rparr>"
  let ?b = "\<lparr>isActive = True,
             frequencyData = [-100, -100, -100, -100, -100, -100, -50, -20 :: real]\<rparr>"
  from t have "\<forall>a b. isActive a \<and> isActive b
              \<and> length (frequencyData a) = 8 \<and> length (frequencyData b) = 8
              \<and> take (3 * (8 div 3)) (frequencyData a) = take (3 * (8 div 3)) (frequencyData b)
              \<longrightarrow> getFrequencyBands a 3 = getFrequencyBands b 3"
    by (elim conjE)
  then have "isActive ?a \<and> isActive ?b
              \<and> length (frequencyData ?a) = 8 \<and> length (frequencyData ?b) = 8
              \<and> take (3 * (8 div 3)) (frequencyData ?a) = take (3 * (8 div 3)) (frequencyData ?b)
              \<longrightarrow> getFrequencyBands ?a 3 = getFrequencyBands ?b 3"
    by blast
  moreover have "take (3 * (8 div 3)) (frequencyData ?a) = take (3 * (8 div 3)) (frequencyData ?b)"
    by (simp add: take_Cons')
  ultimately have ig: "getFrequencyBands ?a 3 = getFrequencyBands ?b 3"
    by simp
  from h ix adj c ig show ?thesis by simp
qed

text \<open>
  C1 as stated fails at 8 bins and 3 bands: the windows visit bins 0 to 5 only, the last
  window is bins 4 and 5, and bins 6 and 7 are in no window. On a frame that is silent
  except for its last two bins, every band is 0; a last window absorbing the remainder
  would have given the third band 1/2.
\<close>

theorem band_windows_drop_remainder:
  "covered_bins 8 3 = [0, 1, 2, 3, 4, 5]
   \<and> band_indices 8 3 2 = [4, 5]
   \<and> 6 \<notin> set (covered_bins 8 3)
   \<and> 7 \<notin> set (covered_bins 8 3)
   \<and> getFrequencyBands
        \<lparr>isActive = True, frequencyData = [-100, -100, -100, -100, -100, -100, 0, 0]\<rparr> 3
      = [Num 0, Num 0, Num 0]"
  by (simp add: covered_bins_def band_indices_def bands_eval)


section \<open>Ranges of the features\<close>

text \<open>
  C2, as the code has it. With the analyzer active and a frame of at least one bin, the
  amplitude of the analyzer module is a number in \<open>[0, 1]\<close>; the amplitude of the copy
  in main.js, which raises the average to the power 0.8 and multiplies by 1.5, is a
  number in \<open>[0, 1.5]\<close>; and for every band count \<open>n\<close> from 1 to the number of bins and
  every index \<open>i < n\<close>, band \<open>i\<close> is a number in \<open>[0, 1]\<close>.
\<close>

theorem feature_ranges:
  assumes "isActive a" and "frequencyData a \<noteq> []"
  shows "(\<exists>r. getAmplitude a = Num r \<and> 0 \<le> r \<and> r \<le> 1)
       \<and> (\<exists>r. getAmplitude_main a = Num r \<and> 0 \<le> r \<and> r \<le> 15 / 10)
       \<and> (\<forall>n i. 1 \<le> n \<and> n \<le> length (frequencyData a) \<and> i < n \<longrightarrow>
             (\<exists>r. getFrequencyBands a n ! i = Num r \<and> 0 \<le> r \<and> r \<le> 1))"
proof -
  have b: "\<exists>r. getFrequencyBands a n ! i = Num r \<and> 0 \<le> r \<and> r \<le> 1"
    if "1 \<le> n" "n \<le> length (frequencyData a)" "i < n" for n i
    using band_value_range [OF that] bands_nth [OF assms(1) that(3)] by simp
  from getAmplitude_range [OF assms] getAmplitude_main_range [OF assms] b
  show ?thesis by blast
qed

text \<open>The instance of C2 at the active two-bin frame \<open>[-30, -130]\<close> and two bands.\<close>

theorem feature_ranges_witness:
  "isActive \<lparr>isActive = True, frequencyData = [-30, -130]\<rparr>
   \<and> frequencyData \<lparr>isActive = True, frequencyData = [-30, -130]\<rparr> \<noteq> []
   \<and> (\<exists>r. getAmplitude \<lparr>isActive = True, frequencyData = [-30, -130]\<rparr> = Num r
          \<and> 0 \<le> r \<and> r \<le> 1)
   \<and> (\<exists>r. getAmplitude_main \<lparr>isActive = True, frequencyData = [-30, -130]\<rparr> = Num r
          \<and> 0 \<le> r \<and> r \<le> 15 / 10)
   \<and> (\<exists>r. getFrequencyBands \<lparr>isActive = True, frequencyData = [-30, -130]\<rparr> 2 ! 1 = Num r
          \<and> 0 \<le> r \<and> r \<le> 1)
   \<and> getAmplitude \<lparr>isActive = True, frequencyData = [-30, -130]\<rparr> = Num (35 / 100)
   \<and> getFrequencyBands \<lparr>isActive = True, frequencyData = [-30, -130]\<rparr> 2
      = [Num (7 / 10), Num 0]"
proof -
  let ?a = "\<lparr>isActive = True, frequencyData = [-30, -130]\<rparr>"
  have h: "isActive ?a" "frequencyData ?a \<noteq> []" by simp_all
  note t = feature_ranges [OF h]
  have g: "\<exists>r. getAmplitude ?a = Num r \<and> 0 \<le> r \<and> r \<le> 1"
    using t by (rule conjunct1)
  have m: "\<exists>r. getAmplitude_main ?a = Num r \<and> 0 \<le> r \<and> r \<le> 15 / 10"
    using t by (rule conjunct1 [OF conjunct2])
  have "\<forall>n i. 1 \<le> n \<and> n \<le> length (frequencyData ?a) \<and> i < n \<longrightarrow>
          (\<exists>r. getFrequencyBands ?a n ! i = Num r \<and> 0 \<le> r \<and> r \<le> 1)"
    using t by (rule conjunct2 [OF conjunct2])
  then have "1 \<le> (2::nat) \<and> 2 \<le> length (frequencyData ?a) \<and> (1::nat) < 2 \<longrightarrow>
          (\<exists>r. getFrequencyBands ?a 2 ! 1 = Num r \<and> 0 \<le> r \<and> r \<le> 1)"
    by blast
  then have b: "\<exists>r. getFrequencyBands ?a 2 ! 1 = Num r \<and> 0 \<le> r \<and> r \<le> 1"
    by simp
  have gv: "getAmplitude ?a = Num (35 / 100)"
    by (simp add: getAmplitude_def getFrequencyData_def sum_loop_def clamp01_def js_div_def
        upt_rec)
  have bv: "getFrequencyBands ?a 2 = [Num (7 / 10), Num 0]"
    by (simp add: bands_eval)
  from h g m b gv bv show ?thesis by blast
qed

text \<open>
  C2 as stated fails twice. On the active one-bin frame \<open>[-30]\<close> the amplitude of the copy
  in main.js is 1.5, above 1; and two bands over that one bin are both \<open>NaN\<close>, not numbers
  in \<open>[0, 1]\<close>.
\<close>

theorem amplitude_main_exceeds_one:
  "getAmplitude_main \<lparr>isActive = True, frequencyData = [-30]\<rparr> = Num (3 / 2)
   \<and> getFrequencyBands \<lparr>isActive = True, frequencyData = [-30]\<rparr> 2 = [NaN, NaN]"
  by (simp add: getAmplitude_main_def bands_eval)


section \<open>Empty windows and empty frames\<close>

text \<open>
  C3, evaluated where the code fails it. Asked for 1025 bands over the 1024 bins of the
  analyzer's buffer, \<open>samplesPerBand\<close> is 0, every window is empty, and the unguarded
  \<open>sum / (end - start)\<close> is \<open>0 / 0\<close>: all 1025 bands are \<open>NaN\<close>. On a zero-length frame
  the bands are \<open>NaN\<close> and not the idle 0.1, and both amplitudes are \<open>NaN\<close> and not 0.
\<close>

theorem more_bands_than_bins_NaN:
  "getFrequencyBands \<lparr>isActive = True, frequencyData = replicate 1024 (-50)\<rparr> 1025
     = replicate 1025 NaN
   \<and> getFrequencyBands \<lparr>isActive = True, frequencyData = []\<rparr> 4 = [NaN, NaN, NaN, NaN]
   \<and> getAmplitude \<lparr>isActive = True, frequencyData = []\<rparr> = NaN
   \<and> getAmplitude_main \<lparr>isActive = True, frequencyData = []\<rparr> = NaN"
proof -
  have "getFrequencyBands \<lparr>isActive = True, frequencyData = replicate 1024 (-50)\<rparr> 1025
     = replicate 1025 NaN"
    by (rule bands_NaN) simp_all
  moreover
  have "getFrequencyBands \<lparr>isActive = True, frequencyData = []\<rparr> 4 = [NaN, NaN, NaN, NaN]"
    by (simp add: bands_eval)
  moreover have "getAmplitude \<lparr>isActive = True, frequencyData = []\<rparr> = NaN"
    by (simp add: getAmplitude_def getFrequencyData_def sum_loop_def js_div_def)
  moreover have "getAmplitude_main \<lparr>isActive = True, frequencyData = []\<rparr> = NaN"
    by (simp add: getAmplitude_main_def getFrequencyData_def sum_loop_def js_div_def)
  ultimately show ?thesis by blast
qed


section \<open>The inactive analyzer\<close>

text \<open>
  C8. While the analyzer is inactive, the amplitude is exactly 0 (in both copies of the
  class) and \<open>bands(n)\<close> is exactly \<open>n\<close> copies of 0.1, whatever the buffer holds and for
  every \<open>n\<close>; the results are functions of the inactive state alone, so every call gives
  them again.
\<close>

theorem inactive_idle:
  assumes "\<not> isActive a"
  shows "getAmplitude a = Num 0 \<and> getAmplitude_main a = Num 0
       \<and> getFrequencyBands a n = replicate n (Num (1 / 10))"
  using assms by (simp add: getAmplitude_def getAmplitude_main_def getFrequencyBands_def)

text \<open>The instance of C8 at an inactive analyzer with a loud buffer and three bands.\<close>

theorem inactive_idle_witness:
  "\<not> isActive \<lparr>isActive = False, frequencyData = [-20, -30]\<rparr>
   \<and> getAmplitude \<lparr>isActive = False, frequencyData = [-20, -30]\<rparr> = Num 0
   \<and> getAmplitude_main \<lparr>isActive = False, frequencyData = [-20, -30]\<rparr> = Num 0
   \<and> getFrequencyBands \<lparr>isActive = False, frequencyData = [-20, -30]\<rparr> 3
      = [Num (1 / 10), Num (1 / 10), Num (1 / 10)]"
  using inactive_idle [of "\<lparr>isActive = False, frequencyData = [-20, -30]\<rparr>" 3]
  by (simp add: numeral_3_eq_3)

text \<open>
  C10. While the analyzer is inactive, \<open>getFrequencyRanges\<close> is exactly bass 0, mid 0,
  treble 0, and each of the \<open>n\<close> idle bands is 0.1, which differs from all three.
\<close>

theorem inactive_ranges_zero:
  assumes "\<not> isActive a"
  shows "getFrequencyRanges a = \<lparr>bass = Num 0, mid = Num 0, treble = Num 0\<rparr>
       \<and> (\<forall>i<n. getFrequencyBands a n ! i = Num (1 / 10)
                \<and> getFrequencyBands a n ! i \<noteq> bass (getFrequencyRanges a)
                \<and> getFrequencyBands a n ! i \<noteq> mid (getFrequencyRanges a)
                \<and> getFrequencyBands a n ! i \<noteq> treble (getFrequencyRanges a))"
  using assms by (simp add: getFrequencyRanges_def getFrequencyBands_def)

text \<open>The instance of C10 at an inactive analyzer with three loud bins and two bands.\<close>

theorem inactive_ranges_zero_witness:
  "\<not> isActive \<lparr>isActive = False, frequencyData = [-20, -30, -40]\<rparr>
   \<and> getFrequencyRanges \<lparr>isActive = False, frequencyData = [-20, -30, -40]\<rparr>
      = \<lparr>bass = Num 0, mid = Num 0, treble = Num 0\<rparr>
   \<and> getFrequencyBands \<lparr>isActive = False, frequencyData = [-20, -30, -40]\<rparr> 2 ! 1
      = Num (1 / 10)"
proof -
  let ?a = "\<lparr>isActive = False, frequencyData = [-20, -30, -40]\<rparr>"
  have h: "\<not> isActive ?a" by simp
  note t = inactive_ranges_zero [OF h, of 2]
  have r: "getFrequencyRanges ?a = \<lparr>bass = Num 0, mid = Num 0, treble = Num 0\<rparr>"
    using t by (rule conjunct1)
  have "\<forall>i<2. getFrequencyBands ?a 2 ! i = Num (1 / 10)"
    using t by simp
  then have b: "getFrequencyBands ?a 2 ! 1 = Num (1 / 10)" by simp
  from h r b show ?thesis by blast
qed


section \<open>The eight-bin scenario\<close>

text \<open>
  C9, as the code has it. With the analyzer active, four bands over the eight-bin frame
  \<open>[-100, -100, -100, -100, -10, -10, -10, -10]\<close> are exactly \<open>[0, 0, 0.9, 0.9]\<close>: the
  code maps a magnitude \<open>m\<close> to \<open>(m + 100) / 100\<close>, so -10 dB is 0.9 and only 0 dB is 1.
\<close>

theorem scenario_bands:
  "getFrequencyBands
     \<lparr>isActive = True, frequencyData = [-100, -100, -100, -100, -10, -10, -10, -10]\<rparr> 4
   = [Num 0, Num 0, Num (9 / 10), Num (9 / 10)]"
  by (simp add: bands_eval)

text \<open>
  C9 as stated fails: the third band of the scenario is 0.9, a tenth below the 1 the
  claim gives, and the result is not \<open>[0, 0, 1, 1]\<close>.
\<close>

theorem scenario_bands_not_one:
  "getFrequencyBands
     \<lparr>isActive = True, frequencyData = [-100, -100, -100, -100, -10, -10, -10, -10]\<rparr> 4 ! 2
   = Num (9 / 10)
   \<and> getFrequencyBands
     \<lparr>isActive = True, frequencyData = [-100, -100, -100, -100, -10, -10, -10, -10]\<rparr> 4
   \<noteq> [Num 0, Num 0, Num 1, Num 1]"
  by (simp add: bands_eval)


section \<open>Parameter setters\<close>

text \<open>
  C4, as the code has it. Each of the five setters stores its argument as it is, with no
  clamping, in its own field, and leaves the other four fields as they were.
\<close>

theorem setters_store_argument:
  "amplitude (setAmplitude v p) = v \<and> frequency (setAmplitude v p) = frequency p
     \<and> speed (setAmplitude v p) = speed p \<and> hue (setAmplitude v p) = hue p
     \<and> mode (setAmplitude v p) = mode p
   \<and> frequency (setFrequency v p) = v \<and> amplitude (setFrequency v p) = amplitude p
     \<and> speed (setFrequency v p) = speed p \<and> hue (setFrequency v p) = hue p
     \<and> mode (setFrequency v p) = mode p
   \<and> speed (setSpeed v p) = v \<and> amplitude (setSpeed v p) = amplitude p
     \<and> frequency (setSpeed v p) = frequency p \<and> hue (setSpeed v p) = hue p
     \<and> mode (setSpeed v p) = mode p
   \<and> hue (setHue v p) = v \<and> amplitude (setHue v p) = amplitude p
     \<and> frequency (setHue v p) = frequency p \<and> speed (setHue v p) = speed p
     \<and> mode (setHue v p) = mode p
   \<and> mode (setMode v p) = v \<and> amplitude (setMode v p) = amplitude p
     \<and> frequency (setMode v p) = frequency p \<and> speed (setMode v p) = speed p
     \<and> hue (setMode v p) = hue p"
  by (simp add: setAmplitude_def setFrequency_def setSpeed_def setHue_def setMode_def)

text \<open>
  C4 as stated fails: \<open>setMode(7)\<close> stores 7, outside the modes 0 to 4, and the other
  setters store a million or minus a million as given.
\<close>

theorem setters_do_not_clamp:
  "mode (setMode 7 initial_params) = 7
   \<and> amplitude (setAmplitude (-1000000) initial_params) = -1000000
   \<and> amplitude (setAmplitude 1000000 initial_params) = 1000000
   \<and> frequency (setFrequency (-1000000) initial_params) = -1000000
   \<and> speed (setSpeed 1000000 initial_params) = 1000000
   \<and> hue (setHue 1000000 initial_params) = 1000000"
  by (simp add: setAmplitude_def setFrequency_def setSpeed_def setHue_def setMode_def)


section \<open>Effective amplitude\<close>

text \<open>
  C6, as the code has it. The second uniform of every frame is
  \<open>amplitude * (0.5 + audioAmp * 1.5)\<close>. For an audio amplitude in \<open>[0, 1]\<close> and a base
  amplitude \<open>A \<ge> 0\<close> it lies in \<open>[0.5 A, 2 A]\<close>; for a base amplitude \<open>A \<le> 0\<close>, which
  the setter accepts, the two bounds change places and it lies in \<open>[2 A, 0.5 A]\<close>.
\<close>

theorem effective_amplitude_bounds:
  assumes "0 \<le> f" and "f \<le> 1"
  shows "render_uniforms p f time width height ! 1
           = F32 (amplitude p * (5 / 10 + f * (15 / 10)))
       \<and> (0 \<le> amplitude p \<longrightarrow>
            5 / 10 * amplitude p \<le> effectiveAmp p f \<and> effectiveAmp p f \<le> 2 * amplitude p)
       \<and> (amplitude p \<le> 0 \<longrightarrow>
            2 * amplitude p \<le> effectiveAmp p f \<and> effectiveAmp p f \<le> 5 / 10 * amplitude p)"
proof -
  have r: "render_uniforms p f time width height ! 1
             = F32 (amplitude p * (5 / 10 + f * (15 / 10)))"
    by (simp add: render_uniforms_def Float32Array_def effectiveAmp_def)
  have k: "5 / 10 \<le> 5 / 10 + f * (15 / 10)" "5 / 10 + f * (15 / 10) \<le> 2"
    using assms by simp_all
  have pos: "5 / 10 * amplitude p \<le> effectiveAmp p f \<and> effectiveAmp p f \<le> 2 * amplitude p"
    if "0 \<le> amplitude p"
    using mult_left_mono [OF k(1) that] mult_left_mono [OF k(2) that]
    by (simp add: effectiveAmp_def mult.commute)
  have neg: "2 * amplitude p \<le> effectiveAmp p f \<and> effectiveAmp p f \<le> 5 / 10 * amplitude p"
    if "amplitude p \<le> 0"
    using mult_left_mono_neg [OF k(1) that] mult_left_mono_neg [OF k(2) that]
    by (simp add: effectiveAmp_def mult.commute)
  from r pos neg show ?thesis by blast
qed

text \<open>The instance of C6 at the initial parameters (base amplitude 1) and audio 1/2.\<close>

theorem effective_amplitude_bounds_witness:
  "(0::real) \<le> 1 / 2 \<and> (1 / 2 :: real) \<le> 1 \<and> 0 \<le> amplitude initial_params
   \<and> effectiveAmp initial_params (1 / 2) = 5 / 4
   \<and> 5 / 10 * amplitude initial_params \<le> effectiveAmp initial_params (1 / 2)
   \<and> effectiveAmp initial_params (1 / 2) \<le> 2 * amplitude initial_params"
proof -
  have h: "(0::real) \<le> 1 / 2" "(1 / 2 :: real) \<le> 1" by simp_all
  have a: "0 \<le> amplitude initial_params" by (simp add: initial_params_def)
  have e: "effectiveAmp initial_params (1 / 2) = 5 / 4"
    by (simp add: effectiveAmp_def initial_params_def)
  from effective_amplitude_bounds [OF h, of initial_params] a
  have "5 / 10 * amplitude initial_params \<le> effectiveAmp initial_params (1 / 2)
        \<and> effectiveAmp initial_params (1 / 2) \<le> 2 * amplitude initial_params"
    by blast
  with h a e show ?thesis by blast
qed

text \<open>
  C6 as stated fails for a negative base amplitude: after \<open>setAmplitude(-1)\<close> and with
  audio 1/2 the effective amplitude is -1.25, which is neither at least \<open>0.5 A = -0.5\<close>
  nor at most \<open>2 A = -2\<close>.
\<close>

theorem effective_amplitude_negative_base:
  "effectiveAmp (setAmplitude (-1) initial_params) (1 / 2) = - (5 / 4)
   \<and> \<not> (5 / 10 * amplitude (setAmplitude (-1) initial_params)
          \<le> effectiveAmp (setAmplitude (-1) initial_params) (1 / 2))
   \<and> \<not> (effectiveAmp (setAmplitude (-1) initial_params) (1 / 2)
          \<le> 2 * amplitude (setAmplitude (-1) initial_params))"
  by (simp add: effectiveAmp_def setAmplitude_def initial_params_def)


section \<open>Layout of the uniform payload\<close>

text \<open>
  C7, as the code has it. The payload of a frame is eight scalars in the order time,
  effective amplitude, frequency, speed, width, height, hue, mode, all eight stored as
  32-bit floats, the mode too: 32 bytes, the size of the uniform buffer. Both shaders
  declare the same seven members at the offsets 0, 4, 8, 12, 16, 24 and 28 of a 32-byte
  struct; wave.wgsl declares \<open>mode\<close> as \<open>u32\<close>, the shader inlined in main.js, which is
  the one the host compiles, declares it as \<open>f32\<close>.
\<close>

theorem uniform_payload_layout:
  "render_uniforms p audioAmp time width height
     = [F32 time, F32 (effectiveAmp p audioAmp), F32 (frequency p), F32 (speed p),
        F32 width, F32 height, F32 (hue p), F32 (mode p)]
   \<and> byteLength (render_uniforms p audioAmp time width height) = 32
   \<and> uniformBuffer_size = 32
   \<and> map fst Uniforms_wave_wgsl
       = [''time'', ''amplitude'', ''frequency'', ''speed'', ''resolution'', ''hue'', ''mode'']
   \<and> map fst Uniforms_inline = map fst Uniforms_wave_wgsl
   \<and> member_offsets 0 (map snd Uniforms_wave_wgsl) = [0, 4, 8, 12, 16, 24, 28]
   \<and> member_offsets 0 (map snd Uniforms_inline) = [0, 4, 8, 12, 16, 24, 28]
   \<and> struct_size (map snd Uniforms_wave_wgsl) = 32
   \<and> struct_size (map snd Uniforms_inline) = 32
   \<and> map snd Uniforms_wave_wgsl = [T_f32, T_f32, T_f32, T_f32, T_vec2_f32, T_f32, T_u32]
   \<and> map snd Uniforms_inline = [T_f32, T_f32, T_f32, T_f32, T_vec2_f32, T_f32, T_f32]"
  by (simp add: render_uniforms_def Float32Array_def byteLength_def uniformBuffer_size_def
      Uniforms_wave_wgsl_def Uniforms_inline_def struct_size_def round_up_def)

text \<open>
  C7 as stated fails in its last part: after \<open>setMode(1)\<close> the eighth scalar of the
  payload is the float 1, not the unsigned integer 1, and the inlined shader reads that
  member as \<open>f32\<close>.
\<close>

theorem payload_mode_is_float:
  "render_uniforms (setMode 1 initial_params) 0 0 800 600 ! 7 = F32 1
   \<and> render_uniforms (setMode 1 initial_params) 0 0 800 600 ! 7 \<noteq> U32 1
   \<and> snd (Uniforms_inline ! 6) = T_f32"
  by (simp add: render_uniforms_def Float32Array_def setMode_def initial_params_def
      Uniforms_inline_def)


section \<open>The default branch of the wave dispatch\<close>

text \<open>
  C5, as the code has it. In wave.wgsl every mode outside 0 to 4 takes the default
  branch, which evaluates \<open>sine_waves\<close>: for every \<open>uv\<close> and \<open>t\<close> the wave equals the
  mode-0 wave. In the shader inlined in main.js there is no case for 4; every mode whose
  conversion \<open>u32(mode + 0.1)\<close> is outside 0 to 3 takes the default branch, and the wave
  is \<open>sin(uv.x * frequency * 3 + t * 2) * cos(uv.y * frequency * 2 + t) * amplitude\<close>,
  the expression that shader comments as Surface and also its result for mode 4. It is
  not that shader's mode-0 wave, which is the sum of the three sine terms with weights
  0.4, 0.3 and 0.2, times the amplitude.
\<close>

theorem wave_default_branch:
  "(m \<notin> {0, 1, 2, 3, 4} \<longrightarrow>
      wave_switch (u\<lparr>u_mode := m\<rparr>) uv t = wave_switch (u\<lparr>u_mode := 0\<rparr>) uv t
      \<and> wave_switch (u\<lparr>u_mode := m\<rparr>) uv t = sine_waves u uv t)
   \<and> (f32_to_u32 (u_mode v + 1 / 10) \<notin> {0, 1, 2, 3} \<longrightarrow>
      inline_wave_switch v uv t
        = sin (fst uv * u_frequency v * 3 + t * 2) * cos (snd uv * u_frequency v * 2 + t)
          * u_amplitude v
      \<and> inline_wave_switch v uv t = inline_wave_switch (v\<lparr>u_mode := 4\<rparr>) uv t)
   \<and> inline_wave_switch (v\<lparr>u_mode := 0\<rparr>) uv t
        = (sin (fst uv * u_frequency v * 3 + t * 2) * (4 / 10)
           + sin (fst uv * u_frequency v * 5 - t * (15 / 10)) * (3 / 10)
           + sin (fst uv * u_frequency v * 7 + t * (25 / 10)) * (2 / 10))
          * u_amplitude v"
proof -
  have a: "wave_switch (u\<lparr>u_mode := m\<rparr>) uv t = wave_switch (u\<lparr>u_mode := 0\<rparr>) uv t
      \<and> wave_switch (u\<lparr>u_mode := m\<rparr>) uv t = sine_waves u uv t"
    if "m \<notin> {0, 1, 2, 3, 4}"
    using that by (simp add: wave_switch_def sine_waves_mode)
  have b: "inline_wave_switch v uv t
        = sin (fst uv * u_frequency v * 3 + t * 2) * cos (snd uv * u_frequency v * 2 + t)
          * u_amplitude v
      \<and> inline_wave_switch v uv t = inline_wave_switch (v\<lparr>u_mode := 4\<rparr>) uv t"
    if "f32_to_u32 (u_mode v + 1 / 10) \<notin> {0, 1, 2, 3}"
    using that by (simp add: inline_wave_switch_def f32_to_u32_4 Let_def)
  have c: "inline_wave_switch (v\<lparr>u_mode := 0\<rparr>) uv t
        = (sin (fst uv * u_frequency v * 3 + t * 2) * (4 / 10)
           + sin (fst uv * u_frequency v * 5 - t * (15 / 10)) * (3 / 10)
           + sin (fst uv * u_frequency v * 7 + t * (25 / 10)) * (2 / 10))
          * u_amplitude v"
    by (simp add: inline_wave_switch_def f32_to_u32_def Let_def)
  from a b c show ?thesis by blast
qed

text \<open>
  The instance of C5 at mode 5, frequency 1, time 0 and the pixel \<open>(\<pi>/2, 0)\<close>, where
  the default branch of the inlined shader gives -1.
\<close>

theorem wave_default_branch_witness:
  "(5 :: 32 word) \<notin> {0, 1, 2, 3, 4}
   \<and> f32_to_u32 (u_mode (uniforms_of (5::real) 0 1) + 1 / 10) \<notin> {0, 1, 2, 3}
   \<and> wave_switch (uniforms_of 5 0 1) (pi / 2, 0) 0
      = sine_waves (uniforms_of (0 :: 32 word) 0 1) (pi / 2, 0) 0
   \<and> inline_wave_switch (uniforms_of 5 0 1) (pi / 2, 0) 0 = - 1"
proof -
  have h1: "(5 :: 32 word) \<notin> {0, 1, 2, 3, 4}" by simp
  have h2: "f32_to_u32 (u_mode (uniforms_of (5::real) 0 1) + 1 / 10) \<notin> {0, 1, 2, 3}"
    by (simp add: uniforms_of_def f32_to_u32_5)
  note t = wave_default_branch
    [of 5 "uniforms_of 0 0 1" "(pi / 2, 0)" 0 "uniforms_of 5 0 1"]
  have "wave_switch ((uniforms_of (0 :: 32 word) 0 1)\<lparr>u_mode := 5\<rparr>) (pi / 2, 0) 0
           = sine_waves (uniforms_of (0 :: 32 word) 0 1) (pi / 2, 0) 0"
    by (rule conjunct2 [OF mp [OF conjunct1 [OF t] h1]])
  then have w: "wave_switch (uniforms_of 5 0 1) (pi / 2, 0) 0
           = sine_waves (uniforms_of (0 :: 32 word) 0 1) (pi / 2, 0) 0"
    by (simp only: uniforms_of_mode)
  have "inline_wave_switch (uniforms_of 5 0 1) (pi / 2, 0) 0
        = sin (fst (pi / 2, 0::real) * u_frequency (uniforms_of (5::real) 0 1) * 3 + 0 * 2)
          * cos (snd (pi / 2, 0::real) * u_frequency (uniforms_of (5::real) 0 1) * 2 + 0)
          * u_amplitude (uniforms_of (5::real) 0 1)"
    by (rule conjunct1 [OF mp [OF conjunct1 [OF conjunct2 [OF t]] h2]])
  then have i: "inline_wave_switch (uniforms_of 5 0 1) (pi / 2, 0) 0 = - 1"
    by (simp add: uniforms_of_def sin_3_half_pi)
  from h1 h2 w i show ?thesis by blast
qed

text \<open>
  C5 as stated fails on the inlined shader: at mode 5, frequency 1, time 0 and the pixel
  \<open>(\<pi>/2, 0)\<close> the wave is -1, the value of the default expression, while the mode-0
  wave there is -0.3.
\<close>

theorem inline_default_is_surface:
  "inline_wave_switch (uniforms_of 5 0 1) (pi / 2, 0) 0 = - 1
   \<and> inline_wave_switch (uniforms_of 0 0 1) (pi / 2, 0) 0 = - (3 / 10)
   \<and> inline_wave_switch (uniforms_of 5 0 1) (pi / 2, 0) 0
      \<noteq> inline_wave_switch (uniforms_of 0 0 1) (pi / 2, 0) 0"
  by (simp add: inline_wave_switch_def uniforms_of_def f32_to_u32_5 f32_to_u32_def Let_def
      sin_5_half_pi sin_3_half_pi sin_7_half_pi)

end
